theory Spec2Isabelle
  imports Main
begin

section \<open>Python values, dictionaries and the observable world\<close>

text \<open>
  A Python dictionary is represented by its items in the order in which \<open>keys()\<close>
  yields them; the keys of a dictionary are pairwise distinct. The Python idiom
  \<open>for k in d.keys(): v = d[k]\<close> walks these items, \<open>k in d\<close> and \<open>d[k]\<close> are
  \<open>map_of d k\<close>, and \<open>d[k] = v\<close> is \<open>dict_set\<close>.
\<close>

type_synonym 'v dict = "(string \<times> 'v) list"

fun dict_set :: "'v dict \<Rightarrow> string \<Rightarrow> 'v \<Rightarrow> 'v dict" where
  "dict_set [] k v = [(k, v)]"
| "dict_set ((k', v') # d) k v = (if k' = k then (k, v) # d else (k', v') # dict_set d k v)"

text \<open>
  The scalar values found in a decoded discovery packet: strings, integers, booleans
  and network addresses (\<open>pyNetAddr\<close>, carried here by the text that \<open>str()\<close> gives
  for them). Floating-point values and Python 2 \<open>long\<close> integers are not
  represented.
\<close>

datatype scalar = SStr string | SInt int | SBool bool | SAddr string

text \<open>The host a packet came from, as the listeners see it.\<close>

record drone =
  designation :: string
  domain :: string
  JSON_OLD_checksums :: "string option"

subsection \<open>Python built-ins used by the listeners\<close>

text \<open>\<open>str()\<close> of a scalar.\<close>

fun digits :: "nat \<Rightarrow> string" where
  "digits n =
     (if n < 10 then [''0123456789'' ! n]
      else digits (n div 10) @ [''0123456789'' ! (n mod 10)])"

declare digits.simps [simp del]

fun pystr :: "scalar \<Rightarrow> string" where
  "pystr (SStr s) = s"
| "pystr (SInt i) = (if i < 0 then CHR ''-'' # digits (nat (- i)) else digits (nat i))"
| "pystr (SBool b) = (if b then ''True'' else ''False'')"
| "pystr (SAddr a) = a"

text \<open>The truth value Python gives a scalar in a condition.\<close>

fun truthy :: "scalar \<Rightarrow> bool" where
  "truthy (SStr s) = (s \<noteq> [])"
| "truthy (SInt i) = (i \<noteq> 0)"
| "truthy (SBool b) = b"
| "truthy (SAddr a) = True"

text \<open>\<open>s.endswith(suf)\<close> and \<open>s.split(c)\<close> for a separator of one character.\<close>

definition endswith :: "string \<Rightarrow> string \<Rightarrow> bool" where
  "endswith s suf \<longleftrightarrow> length suf \<le> length s \<and> drop (length s - length suf) s = suf"

fun split :: "char \<Rightarrow> string \<Rightarrow> string list" where
  "split c [] = [[]]"
| "split c (x # xs) =
     (if x = c then [] # split c xs
      else (case split c xs of
              [] \<Rightarrow> [[x]]
            | seg # segs \<Rightarrow> (x # seg) # segs))"

subsection \<open>Packets\<close>

text \<open>
  A process entry of a \<open>tcpdiscovery\<close> packet: \<open>exe\<close> and \<open>cmdline\<close> are the two keys
  the listener reads, each of which may be absent.
\<close>

record procinfo =
  exe :: "string option"
  cmdline :: "string list option"

text \<open>
  The \<open>data\<close> of a \<open>__LinkDiscovery\<close> packet: \<open>entries\<close> holds the top-level items
  other than \<open>ports\<close> and \<open>SystemCapabilities\<close>, which are dictionaries of their own
  and may be absent.
\<close>

record linkdata =
  entries :: "scalar dict"
  SystemCapabilities :: "scalar dict option"
  ports :: "scalar dict dict option"

text \<open>
  A packet is tagged by its \<open>discovertype\<close>, which fixes the shape of its \<open>data\<close>:
  process entries for \<open>tcpdiscovery\<close>, a checksum per file for \<open>checksum\<close>, a device
  entry per device name for \<open>netconfig\<close>. \<open>Unknown\<close> is a packet of any other type.
\<close>

datatype jsonobj =
    Tcpdiscovery "procinfo dict"
  | Checksum "string dict"
  | LinkDiscovery linkdata
  | Netconfig "scalar dict dict"
  | Unknown string

fun discovertype :: "jsonobj \<Rightarrow> string" where
  "discovertype (Tcpdiscovery _) = ''tcpdiscovery''"
| "discovertype (Checksum _) = ''checksum''"
| "discovertype (LinkDiscovery _) = ''__LinkDiscovery''"
| "discovertype (Netconfig _) = ''netconfig''"
| "discovertype (Unknown t) = t"

subsection \<open>Effects\<close>

text \<open>
  Everything a listener does besides returning is appended to one of the traces of the
  world: lines printed on standard error, log records (level, format, arguments),
  events, discovery requests made of the drone, and calls of the graph store.
\<close>

datatype printed = Print string "string list"

datatype loglevel = WARNING | ERROR | INFO

datatype logarg = Str string | Repr_attrs "scalar dict" | Repr_data linkdata

datatype eventtype = OBJUPDATE

record extrainfo =
  CHANGETYPE :: string
  changes :: "(string \<times> string) dict"

datatype event = AssimEvent string eventtype extrainfo

record checksum_parameters =
  ASSIM_sumcmds :: "string list"
  ASSIM_filelist :: "string list"

record checksumparameters =
  ptype :: string
  parameters :: checksum_parameters

datatype pval = PScalar scalar | PStrings "string list"

datatype request =
    Request_checksums string int checksumparameters
  | Request_batch "pval dict list"

text \<open>
  A node handle returned by the store is the class and the keyword arguments it was
  asked for. \<open>KJson d\<close> is the text \<open>str(d)\<close> of a port dictionary.
\<close>

datatype kwval = KScalar scalar | KJson "scalar dict" | KNone

datatype nodeclass = SystemNode | NICNode | IPaddrNode

datatype node = Node nodeclass "kwval dict"

datatype rel = REL_nicowner | REL_ipowner | REL_wiredto

datatype storecall =
    Load_or_create nodeclass "kwval dict"
  | Relate node rel node "(string \<times> bool) list"
  | Relate_new node rel node
  | Load_related string rel
  | Addrole node string

record world =
  stderr :: "printed list"
  log :: "(loglevel \<times> string \<times> logarg list) list"
  events :: "event list"
  requests :: "request list"
  store :: "storecall list"

text \<open>Exceptions that leave a listener.\<close>

datatype exn = KeyError string | AssertionError | TypeError | AttributeError | ValueError

subsection \<open>Collaborators outside the two files\<close>

datatype addrfamily = ADDR_FAMILY_IPV4 | ADDR_FAMILY_IPV6 | ADDR_FAMILY_802 | ADDR_FAMILY_other

record netaddr =
  addrtype :: addrfamily
  addrtext :: string

text \<open>
  Constants and functions the listeners import: the configuration names of
  \<open>AssimCtypes\<close>, \<open>CMAconsts.ROLE_bridge\<close>, \<open>ConfigFile.agent_params\<close> (by category,
  instance prefix and designation), the constructor \<open>pyNetAddr\<close> (\<open>None\<close> where it
  raises), \<open>store.load_related\<close> (by the store calls made so far, the drone's
  designation and the relation), and the JSON text \<open>str(jsonobj)\<close> of the
  checksum packet with a given \<open>data\<close>, with \<open>pyConfigContext(text)['data']\<close> that
  reads the data back from such a text.
\<close>

record externals =
  CONFIGNAME_INSTANCE :: string
  CONFIGNAME_DEVNAME :: string
  CONFIGNAME_SWPROTOS :: string
  ROLE_bridge :: string
  agent_params :: "string \<Rightarrow> string \<Rightarrow> string \<Rightarrow> pval dict"
  pyNetAddr :: "scalar \<Rightarrow> netaddr option"
  load_related :: "storecall list \<Rightarrow> string \<Rightarrow> rel \<Rightarrow> node list"
  str_jsonobj :: "string dict \<Rightarrow> string"
  data_of_text :: "string \<Rightarrow> string dict"

section \<open>The checksum listener (checksumdiscovery.py)\<close>

subsection \<open>processtcpdiscoverypkt\<close>

text \<open>
  The loop \<open>for j in range(0, len(cmdline))\<close>, which ends at the first \<open>-cp\<close> that is
  not the last token.
\<close>

function jars_loop :: "string list \<Rightarrow> nat \<Rightarrow> string list \<Rightarrow> string list" where
  "jars_loop cmdl j filelist =
     (if j < length cmdl then
        (if cmdl ! j = ''-cp'' \<and> j < length cmdl - 1
         then filelist @ split CHR '':'' (cmdl ! (j + 1))
         else jars_loop cmdl (j + 1) filelist)
      else filelist)"
  by pat_completeness auto
termination
  by (relation "measure (\<lambda>(cmdl, j, filelist). length cmdl - j)") auto

declare jars_loop.simps [simp del]

definition proc_step :: "string list \<Rightarrow> procinfo \<Rightarrow> string list" where
  "proc_step filelist pinfo =
     (case exe pinfo of
        None \<Rightarrow> filelist
      | Some exename \<Rightarrow>
          (let filelist1 = filelist @ [exename]
           in if endswith exename ''/java'' then
                (case cmdline pinfo of
                   None \<Rightarrow> filelist1
                 | Some cmdl \<Rightarrow> jars_loop cmdl 0 filelist1)
              else filelist1))"

fun procs_loop :: "string list \<Rightarrow> procinfo dict \<Rightarrow> string list" where
  "procs_loop filelist [] = filelist"
| "procs_loop filelist ((procname, pinfo) # rest) = procs_loop (proc_step filelist pinfo) rest"

definition initial_sumcmds :: "string list" where
  "initial_sumcmds =
     [''/usr/bin/sha256sum'', ''/usr/bin/sha224sum'', ''/usr/bin/sha384sum'',
      ''/usr/bin/sha512sum'', ''/usr/bin/sha1sum'', ''/usr/bin/md5sum'',
      ''/usr/bin/cksum'', ''/usr/bin/crc32'']"

definition initial_filelist :: "string list" where
  "initial_filelist =
     [''/bin/sh'', ''/bin/bash'', ''/bin/login'', ''/usr/bin/passwd'', ''/tmp/foobar'']"

definition build_checksumparameters :: "procinfo dict \<Rightarrow> checksumparameters" where
  "build_checksumparameters data =
     \<lparr>ptype = ''checksums'',
      parameters = \<lparr>ASSIM_sumcmds = initial_sumcmds,
                    ASSIM_filelist = procs_loop initial_filelist data\<rparr>\<rparr>"

definition processtcpdiscoverypkt :: "world \<Rightarrow> drone \<Rightarrow> procinfo dict \<Rightarrow> world" where
  "processtcpdiscoverypkt w drone data =
     (let cp = build_checksumparameters data;
          w1 = w\<lparr>requests := requests w @ [Request_checksums ''_auto-checksums'' 30 cp]\<rparr>
      in w1\<lparr>stderr := stderr w1 @
              [Print ''REQUESTING CHECKSUM MONITORING OF: %s''
                 (ASSIM_filelist (parameters cp))]\<rparr>)"

subsection \<open>compare_checksums\<close>

fun compare_loop ::
  "string \<Rightarrow> string dict \<Rightarrow> string dict \<Rightarrow> world \<times> (string \<times> string) dict
    \<Rightarrow> world \<times> (string \<times> string) dict" where
  "compare_loop desig [] newobj (w, chg) = (w, chg)"
| "compare_loop desig ((oldfile, oldchecksum) # rest) newobj (w, chg) =
     (case map_of newobj oldfile of
        None \<Rightarrow> compare_loop desig rest newobj (w, chg)
      | Some newchecksum \<Rightarrow>
          if oldchecksum = newchecksum then compare_loop desig rest newobj (w, chg)
          else compare_loop desig rest newobj
                 (w\<lparr>log := log w @
                     [(WARNING, ''On system %s: %s had checksum %s which is now %s'',
                       [Str desig, Str oldfile, Str oldchecksum, Str newchecksum])]\<rparr>,
                  dict_set chg oldfile (oldchecksum, newchecksum)))"

definition compare_checksums :: "world \<Rightarrow> drone \<Rightarrow> string dict \<Rightarrow> string dict \<Rightarrow> world" where
  "compare_checksums w drone oldobj newobj =
     (case compare_loop (designation drone) oldobj newobj (w, []) of
        (w', chg) \<Rightarrow>
          w'\<lparr>events := events w' @
               [AssimEvent (designation drone) OBJUPDATE
                  \<lparr>CHANGETYPE = ''checksums'', changes = chg\<rparr>]\<rparr>)"

subsection \<open>processchecksumpkt\<close>

text \<open>
  The handler is given the \<open>data\<close> of the checksum packet \<open>jsonobj\<close>.
  \<open>hasattr(drone, 'JSON_OLD_checksums')\<close> is false where the field is \<open>None\<close>;
  \<open>data_of_text ext old\<close> is \<open>pyConfigContext(old)['data']\<close> and
  \<open>str_jsonobj ext data\<close> is \<open>str(jsonobj)\<close>.
\<close>

definition processchecksumpkt ::
  "externals \<Rightarrow> world \<Rightarrow> drone \<Rightarrow> string dict \<Rightarrow> world \<times> drone" where
  "processchecksumpkt ext w drone data =
     (let w1 = w\<lparr>stderr := stderr w @ [Print ''PROCESSING CHECKSUM DATA'' []]\<rparr>;
          w2 = (case JSON_OLD_checksums drone of
                  None \<Rightarrow> w1
                | Some old \<Rightarrow>
                    compare_checksums
                      (w1\<lparr>stderr := stderr w1 @ [Print ''COMPARING CHECKSUM DATA'' []]\<rparr>)
                      drone (data_of_text ext old) data);
          w3 = w2\<lparr>stderr := stderr w2 @ [Print ''UPDATING CHECKSUM DATA'' []]\<rparr>
      in (w3, drone\<lparr>JSON_OLD_checksums := Some (str_jsonobj ext data)\<rparr>))"

subsection \<open>processpkt\<close>

text \<open>The source address of a packet is not used by any handler and is left out.\<close>

definition TCPDiscoveryChecksumGenerator_processpkt ::
  "externals \<Rightarrow> world \<Rightarrow> drone \<Rightarrow> jsonobj \<Rightarrow> world \<times> drone" where
  "TCPDiscoveryChecksumGenerator_processpkt ext w drone jsonobj =
     (case jsonobj of
        Tcpdiscovery data \<Rightarrow> (processtcpdiscoverypkt w drone data, drone)
      | Checksum data \<Rightarrow> processchecksumpkt ext w drone data
      | _ \<Rightarrow>
          (w\<lparr>stderr := stderr w @
               [Print ''OOPS! bad packet type [%s]'' [discovertype jsonobj]]\<rparr>, drone))"

section \<open>The link listener (linkdiscovery.py)\<close>

subsection \<open>discovery_indicates_link_is_up and processpkt_netconfig\<close>

definition discovery_indicates_link_is_up :: "scalar dict \<Rightarrow> bool" where
  "discovery_indicates_link_is_up devinfo =
     (case map_of devinfo ''operstate'' of
        None \<Rightarrow> False
      | Some operstate \<Rightarrow>
          (case map_of devinfo ''carrier'' of
             None \<Rightarrow> False
           | Some carrier \<Rightarrow>
               (case map_of devinfo ''address'' of
                  None \<Rightarrow> False
                | Some address \<Rightarrow>
                    pystr operstate = ''up'' \<and> pystr carrier = ''True''
                    \<and> pystr address \<noteq> ''00-00-00-00-00-00''
                    \<and> pystr address \<noteq> [])))"

definition switch_params :: "externals \<Rightarrow> pval dict \<Rightarrow> string \<Rightarrow> pval dict" where
  "switch_params ext init_params devname =
     (let params1 = dict_set init_params (CONFIGNAME_INSTANCE ext)
                      (PScalar (SStr (''#SWITCH_'' @ devname)));
          params2 = dict_set params1 (CONFIGNAME_DEVNAME ext) (PScalar (SStr devname))
      in dict_set params2 (CONFIGNAME_SWPROTOS ext) (PStrings [''lldp'', ''cdp'']))"

fun netconfig_loop ::
  "externals \<Rightarrow> pval dict \<Rightarrow> scalar dict dict \<Rightarrow> pval dict list \<Rightarrow> pval dict list" where
  "netconfig_loop ext init_params [] discovery_args = discovery_args"
| "netconfig_loop ext init_params ((devname, devinfo) # rest) discovery_args =
     (if discovery_indicates_link_is_up devinfo
      then netconfig_loop ext init_params rest
             (discovery_args @ [switch_params ext init_params devname])
      else netconfig_loop ext init_params rest discovery_args)"

definition processpkt_netconfig ::
  "externals \<Rightarrow> world \<Rightarrow> drone \<Rightarrow> scalar dict dict \<Rightarrow> world" where
  "processpkt_netconfig ext w drone data =
     (let init_params = agent_params ext ''discovery'' ''#SWITCH'' (designation drone);
          discovery_args = netconfig_loop ext init_params data []
      in if discovery_args \<noteq> []
         then w\<lparr>requests := requests w @ [Request_batch discovery_args]\<rparr>
         else w)"

subsection \<open>_process_mgmt_addr\<close>

text \<open>
  An attribute of a node handle is the keyword argument of that name; reading one that
  is not there raises AttributeError.
\<close>

definition process_mgmt_addr ::
  "externals \<Rightarrow> world \<Rightarrow> node \<Rightarrow> scalar \<Rightarrow> scalar dict \<Rightarrow> world \<times> exn option" where
  "process_mgmt_addr ext w switch chassisid attrs =
     (case map_of attrs ''ManagementAddress'' of
        None \<Rightarrow> (w, Some (KeyError ''ManagementAddress''))
      | Some mgmtaddr \<Rightarrow>
     (case pyNetAddr ext mgmtaddr of
        None \<Rightarrow> (w, Some ValueError)
      | Some mgmtnetaddr \<Rightarrow>
     (case switch of Node cls kw \<Rightarrow>
        if addrtype mgmtnetaddr = ADDR_FAMILY_IPV4 \<or> addrtype mgmtnetaddr = ADDR_FAMILY_IPV6
        then
          (case pyNetAddr ext chassisid of
             None \<Rightarrow> (w, Some ValueError)
           | Some chassisaddr \<Rightarrow>
               if addrtype chassisaddr = ADDR_FAMILY_802 then
                 (case map_of kw ''domain'' of
                    None \<Rightarrow> (w, Some AttributeError)
                  | Some switch_domain \<Rightarrow>
                      (let nickw = [(''domain'', switch_domain),
                                    (''macaddr'', KScalar chassisid),
                                    (''scope'', KScalar (SStr ''global'')),
                                    (''ifname'', KScalar (SStr ''(adminNIC)''))];
                           adminnic = Node NICNode nickw;
                           ipkw = [(''domain'', switch_domain),
                                   (''cidrmask'', KScalar (SStr ''unknown'')),
                                   (''ipaddr'', KScalar mgmtaddr),
                                   (''subnet'', KNone)];
                           mgmtip = Node IPaddrNode ipkw
                       in (w\<lparr>store := store w @
                              [Load_or_create NICNode nickw,
                               Load_or_create IPaddrNode ipkw,
                               Relate_new switch REL_nicowner adminnic,
                               Relate_new adminnic REL_ipowner mgmtip]\<rparr>, None)))
               else
                 (let w1 = w\<lparr>log := log w @ [(INFO, ''LLDP ATTRS: %s'', [Repr_attrs attrs])]\<rparr>
                  in if mgmtnetaddr \<noteq> chassisaddr then
                       (w1\<lparr>log := log w1 @
                            [(WARNING,
                              ''Chassis ID [%s] not a MAC addrand not the same as mgmt addr [%s]'',
                              [Str (pystr chassisid), Str (pystr mgmtaddr)]),
                             (WARNING, ''Chassis ID [%s] != mgmt addr [%s]'',
                              [Str (addrtext mgmtnetaddr), Str (addrtext chassisaddr)])]\<rparr>,
                        None)
                     else (w1, None)))
        else if addrtype mgmtnetaddr = ADDR_FAMILY_802 then
          (case map_of kw ''domain'' of
             None \<Rightarrow> (w, Some AttributeError)
           | Some switch_domain \<Rightarrow>
               (let nickw = [(''domain'', switch_domain),
                             (''macaddr'', KScalar mgmtaddr),
                             (''scope'', KScalar (SStr ''global'')),
                             (''ifname'', KScalar (SStr ''(ManagementAddress)''))];
                    mgmtnic = Node NICNode nickw
                in (w\<lparr>store := store w @
                       [Load_or_create NICNode nickw,
                        Relate_new switch REL_nicowner mgmtnic]\<rparr>, None)))
        else (w, None))))"

subsection \<open>_process_ports\<close>

fun port_attrs_loop :: "scalar dict \<Rightarrow> scalar dict \<Rightarrow> scalar dict" where
  "port_attrs_loop attrs [] = attrs"
| "port_attrs_loop attrs ((key, val) # rest) =
     port_attrs_loop
       (dict_set attrs key (case val of SAddr a \<Rightarrow> SStr (pystr val) | _ \<Rightarrow> val)) rest"

text \<open>
  The loop over the drone's own NICs: the first one whose \<open>ifname\<close> is \<open>matchif\<close> is
  wired to the port's NIC, and the loop ends there.
\<close>

fun wire_loop :: "world \<Rightarrow> node \<Rightarrow> scalar \<Rightarrow> node list \<Rightarrow> world \<times> exn option" where
  "wire_loop w nicnode matchif [] = (w, None)"
| "wire_loop w nicnode matchif (Node cls kw # rest) =
     (case map_of kw ''ifname'' of
        None \<Rightarrow> (w, Some AttributeError)
      | Some ifname \<Rightarrow>
          if ifname = KScalar matchif
          then (w\<lparr>store := store w @ [Relate_new nicnode REL_wiredto (Node cls kw)]\<rparr>, None)
          else wire_loop w nicnode matchif rest)"

text \<open>
  The keyword arguments that \<open>load_or_create\<close> is given by name for a port's NIC; a
  port field of the same name, passed again through \<open>**attrs\<close>, is a TypeError.
\<close>

definition nic_keywords :: "string list" where
  "nic_keywords = [''domain'', ''macaddr'', ''scope'', ''json'', ''ifname'']"

text \<open>
  The keyword arguments of \<open>load_or_create\<close> for a port's NIC: the five given by
  name, then the port's fields.
\<close>

definition port_keywords ::
  "drone \<Rightarrow> scalar \<Rightarrow> scalar dict \<Rightarrow> scalar \<Rightarrow> scalar dict \<Rightarrow> kwval dict" where
  "port_keywords drone nicmac thisport portid attrs =
     [(''domain'', KScalar (SStr (domain drone))),
      (''macaddr'', KScalar nicmac),
      (''scope'', KScalar (SStr ''global'')),
      (''json'', KJson thisport),
      (''ifname'', KScalar portid)]
     @ map (\<lambda>(key, val). (key, KScalar val)) attrs"

text \<open>
  One turn of the loop over the ports. The \<open>try\<close> block catches KeyError only: a
  missing \<open>ConnectsToHost\<close> or \<open>ConnectsToInterface\<close> is logged and the turn ends
  normally, a failed \<open>assert\<close> leaves the function.
\<close>

definition process_port ::
  "externals \<Rightarrow> world \<Rightarrow> drone \<Rightarrow> node \<Rightarrow> scalar \<Rightarrow> scalar dict \<Rightarrow> world \<times> exn option" where
  "process_port ext w drone switch chassisid thisport =
     (let attrs = port_attrs_loop [] thisport;
          nicmac = (case map_of thisport ''sourceMAC'' of
                      Some mac \<Rightarrow> mac
                    | None \<Rightarrow> chassisid)
      in case map_of thisport ''PortId'' of
           None \<Rightarrow> (w, Some (KeyError ''PortId''))
         | Some portid \<Rightarrow>
             if list_ex (\<lambda>key. map_of attrs key \<noteq> None) nic_keywords
             then (w, Some TypeError)
             else
               (let kw = port_keywords drone nicmac thisport portid attrs;
                    nicnode = Node NICNode kw;
                    w1 = w\<lparr>store := store w @
                           [Load_or_create NICNode kw,
                            Relate switch REL_nicowner nicnode [(''causes'', True)]]\<rparr>;
                    oops = w1\<lparr>log := log w1 @ [(ERROR, ''OOPS! got an exception...'', [])]\<rparr>
                in case map_of thisport ''ConnectsToHost'' of
                     None \<Rightarrow> (oops, None)
                   | Some host \<Rightarrow>
                       if host \<noteq> SStr (designation drone) then (w1, Some AssertionError)
                       else
                         (case map_of thisport ''ConnectsToInterface'' of
                            None \<Rightarrow> (oops, None)
                          | Some matchif \<Rightarrow>
                              (let niclist = load_related ext (store w1) (designation drone)
                                               REL_nicowner;
                                   w2 = w1\<lparr>store := store w1 @
                                          [Load_related (designation drone) REL_nicowner]\<rparr>
                               in wire_loop w2 nicnode matchif niclist))))"

fun process_ports ::
  "externals \<Rightarrow> world \<Rightarrow> drone \<Rightarrow> node \<Rightarrow> scalar \<Rightarrow> scalar dict dict \<Rightarrow> world \<times> exn option" where
  "process_ports ext w drone switch chassisid [] = (w, None)"
| "process_ports ext w drone switch chassisid ((portname, thisport) # rest) =
     (case process_port ext w drone switch chassisid thisport of
        (w', Some e) \<Rightarrow> (w', Some e)
      | (w', None) \<Rightarrow> process_ports ext w' drone switch chassisid rest)"

subsection \<open>processpkt_linkdiscovery\<close>

text \<open>
  A value that is an \<open>int\<close> (a \<open>bool\<close> is one in Python) is kept, any other is
  replaced by its \<open>str()\<close>.
\<close>

fun switch_attrs_loop :: "scalar dict \<Rightarrow> scalar dict \<Rightarrow> scalar dict" where
  "switch_attrs_loop attrs [] = attrs"
| "switch_attrs_loop attrs ((key, val) # rest) =
     (if key = ''ports'' \<or> key = ''SystemCapabilities'' then switch_attrs_loop attrs rest
      else switch_attrs_loop
             (dict_set attrs key
                (case val of SInt i \<Rightarrow> val | SBool b \<Rightarrow> val | _ \<Rightarrow> SStr (pystr val)))
             rest)"

fun roles_loop :: "node \<Rightarrow> world \<Rightarrow> scalar dict \<Rightarrow> world" where
  "roles_loop switch w [] = w"
| "roles_loop switch w ((role, flag) # rest) =
     roles_loop switch
       (if truthy flag then w\<lparr>store := store w @ [Addrole switch role]\<rparr> else w) rest"

definition processpkt_linkdiscovery ::
  "externals \<Rightarrow> world \<Rightarrow> drone \<Rightarrow> linkdata \<Rightarrow> world \<times> exn option" where
  "processpkt_linkdiscovery ext w drone data =
     (case map_of (entries data) ''ChassisId'' of
        None \<Rightarrow>
          (w\<lparr>log := log w @
               [(WARNING, ''Chassis ID missing from discovery data from switch [%s]'',
                 [Repr_data data])]\<rparr>, None)
      | Some chassisid \<Rightarrow>
          (let attrs0 = switch_attrs_loop [] (entries data);
               attrs1 = dict_set attrs0 ''designation'' chassisid;
               attrs = dict_set attrs1 ''domain'' (SStr (domain drone));
               kw = map (\<lambda>(key, val). (key, KScalar val)) attrs;
               switch = Node SystemNode kw;
               w1 = w\<lparr>store := store w @ [Load_or_create SystemNode kw]\<rparr>;
               w2 = (case SystemCapabilities data of
                       None \<Rightarrow> w1\<lparr>store := store w1 @ [Addrole switch (ROLE_bridge ext)]\<rparr>
                     | Some caps \<Rightarrow> roles_loop switch w1 caps);
               r = (if map_of attrs ''ManagementAddress'' \<noteq> None
                    then process_mgmt_addr ext w2 switch chassisid attrs
                    else (w2, None))
           in case r of
                (w3, Some e) \<Rightarrow> (w3, Some e)
              | (w3, None) \<Rightarrow>
                  (case ports data of
                     None \<Rightarrow> (w3, Some (KeyError ''ports''))
                   | Some ps \<Rightarrow> process_ports ext w3 drone switch chassisid ps)))"

subsection \<open>processpkt\<close>

definition LinkDiscoveryListener_processpkt ::
  "externals \<Rightarrow> world \<Rightarrow> drone \<Rightarrow> jsonobj \<Rightarrow> bool \<Rightarrow> world \<times> exn option" where
  "LinkDiscoveryListener_processpkt ext w drone jsonobj discoverychanged =
     (if \<not> discoverychanged then (w, None)
      else
        (case jsonobj of
           LinkDiscovery data \<Rightarrow> processpkt_linkdiscovery ext w drone data
         | Netconfig data \<Rightarrow> (processpkt_netconfig ext w drone data, None)
         | _ \<Rightarrow>
             (w\<lparr>stderr := stderr w @
                  [Print ''OOPS! bad packet type [%s]'' [discovertype jsonobj]]\<rparr>, None)))"

section \<open>Concrete inputs for the instances below\<close>

definition empty_world :: world where
  "empty_world = \<lparr>stderr = [], log = [], events = [], requests = [], store = []\<rparr>"

definition example_drone :: drone where
  "example_drone = \<lparr>designation = ''drone1'', domain = ''global'', JSON_OLD_checksums = None\<rparr>"

text \<open>
  An instance of the collaborators: a line-oriented text for checksum data
  (\<open>file=checksum;\<close> per file), every address a MAC address, and a drone that owns
  the single NIC \<open>eth0\<close>.
\<close>

definition example_externals :: externals where
  "example_externals =
     \<lparr>CONFIGNAME_INSTANCE = ''instance'',
      CONFIGNAME_DEVNAME = ''devname'',
      CONFIGNAME_SWPROTOS = ''switchprotocols'',
      ROLE_bridge = ''bridge'',
      agent_params = (\<lambda>category prefix desig. [(''repeat'', PScalar (SInt 0))]),
      pyNetAddr = (\<lambda>v. Some \<lparr>addrtype = ADDR_FAMILY_802, addrtext = pystr v\<rparr>),
      load_related = (\<lambda>calls desig r. [Node NICNode [(''ifname'', KScalar (SStr ''eth0''))]]),
      str_jsonobj = (\<lambda>data. concat (map (\<lambda>(file, sum). file @ ''='' @ sum @ '';'') data)),
      data_of_text = (\<lambda>text. map (\<lambda>item. (takeWhile (\<lambda>c. c \<noteq> CHR ''='') item,
                                             drop 1 (dropWhile (\<lambda>c. c \<noteq> CHR ''='') item)))
                                  (butlast (split CHR '';'' text)))\<rparr>"

text \<open>
  A switch node and ports of a \<open>__LinkDiscovery\<close> packet: one that names the drone
  and its NIC \<open>eth0\<close>, one without \<open>ConnectsToHost\<close>, one without
  \<open>ConnectsToInterface\<close>, one that names another host, one without \<open>PortId\<close>, and
  one with a field called \<open>scope\<close>.
\<close>

definition example_switch :: node where
  "example_switch =
     Node SystemNode
       [(''ChassisId'', KScalar (SStr ''00-11-22-33-44-55'')),
        (''designation'', KScalar (SAddr ''00-11-22-33-44-55'')),
        (''domain'', KScalar (SStr ''global''))]"

definition port_wired :: "scalar dict" where
  "port_wired =
     [(''PortId'', SStr ''Gi0/2''), (''ConnectsToHost'', SStr ''drone1''),
      (''ConnectsToInterface'', SStr ''eth0'')]"

definition port_without_host :: "scalar dict" where
  "port_without_host = [(''PortId'', SStr ''Gi0/1''), (''ConnectsToInterface'', SStr ''eth0'')]"

definition port_without_interface :: "scalar dict" where
  "port_without_interface = [(''PortId'', SStr ''Gi0/3''), (''ConnectsToHost'', SStr ''drone1'')]"

definition port_other_host :: "scalar dict" where
  "port_other_host =
     [(''PortId'', SStr ''Gi0/1''), (''ConnectsToHost'', SStr ''otherhost''),
      (''ConnectsToInterface'', SStr ''eth0'')]"

definition port_without_id :: "scalar dict" where
  "port_without_id =
     [(''ConnectsToHost'', SStr ''drone1''), (''ConnectsToInterface'', SStr ''eth0'')]"

definition port_with_scope :: "scalar dict" where
  "port_with_scope = [(''PortId'', SStr ''Gi0/1''), (''scope'', SStr ''local'')]"

section \<open>Properties of the checksum listener\<close>

subsection \<open>Dictionaries\<close>

lemma map_of_dict_set: "map_of (dict_set d k v) = (map_of d)(k \<mapsto> v)"
  by (induction d) (auto simp: fun_upd_twist)

subsection \<open>The diff\<close>

lemma compare_loop_changes:
  "distinct (map fst oldobj) \<Longrightarrow>
   map_of (snd (compare_loop desig oldobj newobj (w, chg))) k =
     (case map_of oldobj k of
        None \<Rightarrow> map_of chg k
      | Some ov \<Rightarrow>
          (case map_of newobj k of
             None \<Rightarrow> map_of chg k
           | Some nv \<Rightarrow> if ov = nv then map_of chg k else Some (ov, nv)))"
proof (induction oldobj arbitrary: w chg)
  case Nil
  then show ?case by simp
next
  case (Cons a rest)
  obtain f c where a: "a = (f, c)" by (cases a)
  from Cons.prems have d: "distinct (map fst rest)" and nf: "map_of rest f = None"
    by (auto simp: a map_of_eq_None_iff)
  show ?case
    using Cons.IH [OF d] nf
    by (auto simp: a map_of_dict_set split: option.splits)
qed

lemma compare_loop_frame:
  "events (fst (compare_loop desig oldobj newobj (w, chg))) = events w
   \<and> stderr (fst (compare_loop desig oldobj newobj (w, chg))) = stderr w
   \<and> requests (fst (compare_loop desig oldobj newobj (w, chg))) = requests w
   \<and> store (fst (compare_loop desig oldobj newobj (w, chg))) = store w"
  by (induction oldobj arbitrary: w chg) (auto split: option.splits)

lemma compare_checksums_events:
  "events (compare_checksums w drone oldobj newobj) =
     events w @ [AssimEvent (designation drone) OBJUPDATE
                   \<lparr>CHANGETYPE = ''checksums'',
                    changes = snd (compare_loop (designation drone) oldobj newobj (w, []))\<rparr>]"
proof (cases "compare_loop (designation drone) oldobj newobj (w, [])")
  case (Pair w' chg)
  with compare_loop_frame [of "designation drone" oldobj newobj w "[]"]
  show ?thesis by (simp add: compare_checksums_def)
qed

text \<open>
  Claim C1, as amended. For every old and new checksum map, the changes map carried by
  the event that \<open>compare_checksums\<close> emits has an entry for exactly the keys that
  are in both maps with different values, and the entry is the pair (old value, new
  value); a key of only one of the maps has no entry. For old \<open>{a: x, b: y}\<close> and new
  \<open>{a: x, b: z, c: w}\<close> the changes map is exactly \<open>{b: (y, z)}\<close>.
\<close>

theorem compare_checksums_records_value_changes:
  assumes "distinct (map fst oldobj)"
  shows "(\<exists>chg. events (compare_checksums w drone oldobj newobj) =
             events w @ [AssimEvent (designation drone) OBJUPDATE
                           \<lparr>CHANGETYPE = ''checksums'', changes = chg\<rparr>]
           \<and> (\<forall>k ov nv. map_of chg k = Some (ov, nv) \<longleftrightarrow>
                 map_of oldobj k = Some ov \<and> map_of newobj k = Some nv \<and> ov \<noteq> nv))
       \<and> events (compare_checksums w drone
                   [(''a'', ''x''), (''b'', ''y'')]
                   [(''a'', ''x''), (''b'', ''z''), (''c'', ''w'')]) =
           events w @ [AssimEvent (designation drone) OBJUPDATE
                         \<lparr>CHANGETYPE = ''checksums'', changes = [(''b'', (''y'', ''z''))]\<rparr>]"
proof -
  let ?chg = "snd (compare_loop (designation drone) oldobj newobj (w, []))"
  have "map_of ?chg k = Some (ov, nv) \<longleftrightarrow>
          map_of oldobj k = Some ov \<and> map_of newobj k = Some nv \<and> ov \<noteq> nv" for k ov nv
    using compare_loop_changes [OF assms, of "designation drone" newobj w "[]" k]
    by (auto split: option.splits if_splits)
  then have general: "\<exists>chg. events (compare_checksums w drone oldobj newobj) =
             events w @ [AssimEvent (designation drone) OBJUPDATE
                           \<lparr>CHANGETYPE = ''checksums'', changes = chg\<rparr>]
           \<and> (\<forall>k ov nv. map_of chg k = Some (ov, nv) \<longleftrightarrow>
                 map_of oldobj k = Some ov \<and> map_of newobj k = Some nv \<and> ov \<noteq> nv)"
    using compare_checksums_events [of w drone oldobj newobj] by blast
  have example: "events (compare_checksums w drone
                   [(''a'', ''x''), (''b'', ''y'')]
                   [(''a'', ''x''), (''b'', ''z''), (''c'', ''w'')]) =
           events w @ [AssimEvent (designation drone) OBJUPDATE
                         \<lparr>CHANGETYPE = ''checksums'', changes = [(''b'', (''y'', ''z''))]\<rparr>]"
    by (simp add: compare_checksums_events)
  from general example show ?thesis by (rule conjI)
qed

theorem compare_checksums_records_value_changes_witness:
  "distinct (map fst [(''a'', ''x''), (''b'', ''y'')])
   \<and> (\<exists>chg. events (compare_checksums empty_world example_drone
                        [(''a'', ''x''), (''b'', ''y'')]
                        [(''a'', ''x''), (''b'', ''z''), (''c'', ''w'')]) =
             [AssimEvent ''drone1'' OBJUPDATE \<lparr>CHANGETYPE = ''checksums'', changes = chg\<rparr>]
           \<and> map_of chg ''b'' = Some (''y'', ''z'')
           \<and> map_of chg ''a'' = None \<and> map_of chg ''c'' = None)"
proof -
  have d: "distinct (map fst [(''a'', ''x''), (''b'', ''y'')])" by simp
  from compare_checksums_records_value_changes
         [OF d, of empty_world example_drone "[(''a'', ''x''), (''b'', ''z''), (''c'', ''w'')]"]
  show ?thesis by (simp add: empty_world_def example_drone_def)
qed

text \<open>
  Claim C1 as stated gives \<open>{b: (x, z)}\<close> for the example; the old value of \<open>b\<close> is
  \<open>y\<close>, and the recorded pair is \<open>(y, z)\<close>.
\<close>

theorem compare_checksums_example_counterexample:
  "events (compare_checksums empty_world example_drone
             [(''a'', ''x''), (''b'', ''y'')]
             [(''a'', ''x''), (''b'', ''z''), (''c'', ''w'')])
   \<noteq> [AssimEvent ''drone1'' OBJUPDATE
        \<lparr>CHANGETYPE = ''checksums'', changes = [(''b'', (''x'', ''z''))]\<rparr>]"
  by (simp add: compare_checksums_events empty_world_def example_drone_def)

lemma compare_loop_changes_world:
  "snd (compare_loop desig oldobj newobj (w, chg)) = snd (compare_loop desig oldobj newobj (w', chg))"
  by (induction oldobj arbitrary: w w' chg) (auto split: option.splits)

lemma processchecksumpkt_diffed:
  "JSON_OLD_checksums drone = Some old \<Longrightarrow>
   events (fst (processchecksumpkt ext w drone data)) =
     events w @ [AssimEvent (designation drone) OBJUPDATE
                   \<lparr>CHANGETYPE = ''checksums'',
                    changes = snd (compare_loop (designation drone) (data_of_text ext old)
                                     data (w, []))\<rparr>]"
  using compare_loop_changes_world
          [of "designation drone" "data_of_text ext old" data
              "w\<lparr>stderr := stderr w @ [Print ''PROCESSING CHECKSUM DATA'' [],
                                       Print ''COMPARING CHECKSUM DATA'' []]\<rparr>" "[]" w]
  by (simp add: processchecksumpkt_def Let_def compare_checksums_events)

text \<open>
  Claim C2, as amended. When a checksum packet is diffed against a previous snapshot,
  exactly one "object updated" event is emitted for the packet, and it carries
  \<open>{CHANGETYPE: checksums, changes: <the changes map>}\<close>, whether or not any change
  was recorded: with no change the event carries the empty changes map.
\<close>

theorem processchecksumpkt_emits_one_event:
  assumes "JSON_OLD_checksums drone = Some old"
  shows "events (fst (processchecksumpkt ext w drone data)) =
           events w @ [AssimEvent (designation drone) OBJUPDATE
                         \<lparr>CHANGETYPE = ''checksums'',
                          changes = snd (compare_loop (designation drone)
                                           (data_of_text ext old) data (w, []))\<rparr>]"
  using assms by (rule processchecksumpkt_diffed)

theorem processchecksumpkt_emits_one_event_witness:
  "JSON_OLD_checksums (example_drone\<lparr>JSON_OLD_checksums := Some ''a=x;b=y;''\<rparr>)
     = Some ''a=x;b=y;''
   \<and> events (fst (processchecksumpkt example_externals empty_world
                    (example_drone\<lparr>JSON_OLD_checksums := Some ''a=x;b=y;''\<rparr>)
                    [(''a'', ''x''), (''b'', ''z'')])) =
       [AssimEvent ''drone1'' OBJUPDATE
          \<lparr>CHANGETYPE = ''checksums'', changes = [(''b'', (''y'', ''z''))]\<rparr>]"
proof -
  have h: "JSON_OLD_checksums (example_drone\<lparr>JSON_OLD_checksums := Some ''a=x;b=y;''\<rparr>)
             = Some ''a=x;b=y;''"
    by simp
  from processchecksumpkt_emits_one_event
         [OF h, of example_externals empty_world "[(''a'', ''x''), (''b'', ''z'')]"]
  show ?thesis by (simp add: example_externals_def empty_world_def example_drone_def)
qed

text \<open>
  Claim C2 as stated has no event when the changes map is empty. A packet equal to the
  previous snapshot records no change, and the event is emitted all the same.
\<close>

theorem processchecksumpkt_no_change_counterexample:
  "events (fst (processchecksumpkt example_externals empty_world
                  (example_drone\<lparr>JSON_OLD_checksums := Some ''a=x;''\<rparr>)
                  [(''a'', ''x'')])) =
     [AssimEvent ''drone1'' OBJUPDATE \<lparr>CHANGETYPE = ''checksums'', changes = []\<rparr>]"
  by (simp add: processchecksumpkt_diffed example_externals_def empty_world_def
      example_drone_def)

text \<open>
  Claim C5. On the first checksum packet of an entity (no snapshot stored) nothing is
  compared and no event is emitted: besides two lines on standard error the world is
  unchanged. After any checksum packet the stored snapshot is the text of the new
  packet, whatever was stored before and whatever the diff found.
\<close>

theorem processchecksumpkt_snapshot:
  "(JSON_OLD_checksums drone = None \<longrightarrow>
      fst (processchecksumpkt ext w drone data) =
        w\<lparr>stderr := stderr w @ [Print ''PROCESSING CHECKSUM DATA'' [],
                                Print ''UPDATING CHECKSUM DATA'' []]\<rparr>)
   \<and> snd (processchecksumpkt ext w drone data) =
        drone\<lparr>JSON_OLD_checksums := Some (str_jsonobj ext data)\<rparr>"
  by (simp add: processchecksumpkt_def Let_def)

theorem processchecksumpkt_snapshot_witness:
  "JSON_OLD_checksums example_drone = None
   \<and> fst (processchecksumpkt example_externals empty_world example_drone [(''a'', ''x'')]) =
       empty_world\<lparr>stderr := [Print ''PROCESSING CHECKSUM DATA'' [],
                              Print ''UPDATING CHECKSUM DATA'' []]\<rparr>
   \<and> events (fst (processchecksumpkt example_externals empty_world example_drone
                    [(''a'', ''x'')])) = []
   \<and> snd (processchecksumpkt example_externals empty_world example_drone [(''a'', ''x'')]) =
       example_drone\<lparr>JSON_OLD_checksums := Some ''a=x;''\<rparr>"
proof -
  have h: "JSON_OLD_checksums example_drone = None" by (simp add: example_drone_def)
  from processchecksumpkt_snapshot
         [of example_drone example_externals empty_world "[(''a'', ''x'')]"] h
  show ?thesis by (simp add: example_externals_def empty_world_def)
qed

subsection \<open>The probe request\<close>

lemma jars_loop_append: "jars_loop cmdl j filelist = filelist @ jars_loop cmdl j []"
proof (induction cmdl j filelist rule: jars_loop.induct)
  case (1 cmdl j filelist)
  show ?case
  proof (cases "j < length cmdl \<and> \<not> (cmdl ! j = ''-cp'' \<and> j < length cmdl - 1)")
    case True
    with "1.IH" have "jars_loop cmdl (j + 1) filelist = filelist @ jars_loop cmdl (j + 1) []"
      by simp
    with True show ?thesis by (subst (1 2) jars_loop.simps) auto
  next
    case False
    then show ?thesis by (subst (1 2) jars_loop.simps) auto
  qed
qed

lemma proc_step_append: "proc_step filelist pinfo = filelist @ proc_step [] pinfo"
  using jars_loop_append [of _ 0 "filelist @ [_]"] jars_loop_append [of _ 0 "[_]"]
  by (simp add: proc_step_def Let_def split: option.splits)

lemma procs_loop_concat:
  "procs_loop filelist data =
     filelist @ concat (map (\<lambda>(procname, pinfo). proc_step [] pinfo) data)"
proof (induction data arbitrary: filelist)
  case Nil
  then show ?case by simp
next
  case (Cons a data)
  obtain procname pinfo where a: "a = (procname, pinfo)" by (cases a)
  show ?case
    using Cons.IH [of "proc_step filelist pinfo"] proc_step_append [of filelist pinfo]
    by (simp add: a)
qed

lemma jars_loop_first_cp:
  "j \<le> k \<Longrightarrow> k + 1 < length cmdl \<Longrightarrow> cmdl ! k = ''-cp''
   \<Longrightarrow> (\<And>i. j \<le> i \<Longrightarrow> i < k \<Longrightarrow> cmdl ! i \<noteq> ''-cp'')
   \<Longrightarrow> jars_loop cmdl j filelist = filelist @ split CHR '':'' (cmdl ! (k + 1))"
proof (induction "k - j" arbitrary: j)
  case 0
  then have "j = k" by simp
  with 0 show ?case by (subst jars_loop.simps) auto
next
  case (Suc n)
  then have lt: "j < k" and ne: "cmdl ! j \<noteq> ''-cp''" by simp_all
  have "jars_loop cmdl (j + 1) filelist = filelist @ split CHR '':'' (cmdl ! (k + 1))"
  proof (rule Suc.hyps(1))
    show "n = k - (j + 1)" using Suc.hyps(2) by simp
    show "j + 1 \<le> k" using lt by simp
    show "k + 1 < length cmdl" by (rule Suc.prems(2))
    show "cmdl ! k = ''-cp''" by (rule Suc.prems(3))
    show "cmdl ! i \<noteq> ''-cp''" if "j + 1 \<le> i" "i < k" for i
      using that Suc.prems(4) [of i] by simp
  qed
  with lt ne Suc.prems(2) show ?case by (subst jars_loop.simps) auto
qed

text \<open>
  Claim C4, as amended. For every tcpdiscovery packet, the single request made carries
  the eight checksum commands \<open>/usr/bin/sha256sum\<close>, \<open>sha224sum\<close>, \<open>sha384sum\<close>,
  \<open>sha512sum\<close>, \<open>sha1sum\<close>, \<open>md5sum\<close>, \<open>cksum\<close>, \<open>crc32\<close> and a file list that
  starts from the five base files \<open>/bin/sh\<close>, \<open>/bin/bash\<close>, \<open>/bin/login\<close>,
  \<open>/usr/bin/passwd\<close>, \<open>/tmp/foobar\<close>, followed by what each process entry appends.
\<close>

theorem processtcpdiscoverypkt_request:
  "requests (processtcpdiscoverypkt w drone data) =
     requests w @
     [Request_checksums ''_auto-checksums'' 30
        \<lparr>ptype = ''checksums'',
         parameters =
           \<lparr>ASSIM_sumcmds =
              [''/usr/bin/sha256sum'', ''/usr/bin/sha224sum'', ''/usr/bin/sha384sum'',
               ''/usr/bin/sha512sum'', ''/usr/bin/sha1sum'', ''/usr/bin/md5sum'',
               ''/usr/bin/cksum'', ''/usr/bin/crc32''],
            ASSIM_filelist =
              [''/bin/sh'', ''/bin/bash'', ''/bin/login'', ''/usr/bin/passwd'', ''/tmp/foobar'']
              @ concat (map (\<lambda>(procname, pinfo). proc_step [] pinfo) data)\<rparr>\<rparr>]"
  by (simp add: processtcpdiscoverypkt_def Let_def build_checksumparameters_def
      initial_sumcmds_def initial_filelist_def procs_loop_concat)

text \<open>
  Claim C4 as stated has four base files. With no process entry at all the file list
  of the request has a fifth, \<open>/tmp/foobar\<close>.
\<close>

theorem processtcpdiscoverypkt_base_files_counterexample:
  "requests (processtcpdiscoverypkt empty_world example_drone []) =
     [Request_checksums ''_auto-checksums'' 30
        \<lparr>ptype = ''checksums'',
         parameters =
           \<lparr>ASSIM_sumcmds = initial_sumcmds,
            ASSIM_filelist =
              [''/bin/sh'', ''/bin/bash'', ''/bin/login'', ''/usr/bin/passwd'',
               ''/tmp/foobar'']\<rparr>\<rparr>]
   \<and> ASSIM_filelist (parameters (build_checksumparameters []))
       \<noteq> [''/bin/sh'', ''/bin/bash'', ''/bin/login'', ''/usr/bin/passwd'']"
  by (simp add: processtcpdiscoverypkt_def Let_def build_checksumparameters_def
      initial_filelist_def empty_world_def)

text \<open>
  Claim C8, as amended. For every tcpdiscovery packet, the generated file list is the
  base list followed by what each process entry appends, in turn. A process entry whose
  \<open>exe\<close> ends with \<open>/java\<close> and whose \<open>cmdline\<close> has a \<open>-cp\<close> token followed by
  another token appends exactly its \<open>exe\<close> and then every colon-separated segment of
  the token that follows the first \<open>-cp\<close>, and nothing more: the loop over the
  \<open>cmdline\<close> ends there, and no token after a later \<open>-cp\<close> is read. So the \<open>exe\<close>
  and these segments are in the file list. In particular the entry
  \<open>{exe: /usr/bin/java, cmdline: [java, -cp, /a.jar:/b.jar, Main]}\<close> puts
  \<open>/usr/bin/java\<close>, \<open>/a.jar\<close> and \<open>/b.jar\<close> in the file list.
\<close>

theorem processtcpdiscoverypkt_java_classpath:
  assumes "(procname, pinfo) \<in> set data"
    and "exe pinfo = Some exename"
    and "endswith exename ''/java''"
    and "cmdline pinfo = Some cmdl"
    and "k + 1 < length cmdl"
    and "cmdl ! k = ''-cp''"
    and "\<forall>i<k. cmdl ! i \<noteq> ''-cp''"
  shows "ASSIM_filelist (parameters (build_checksumparameters data)) =
           [''/bin/sh'', ''/bin/bash'', ''/bin/login'', ''/usr/bin/passwd'', ''/tmp/foobar'']
           @ concat (map (\<lambda>(procname, pinfo). proc_step [] pinfo) data)
       \<and> proc_step filelist pinfo = filelist @ exename # split CHR '':'' (cmdl ! (k + 1))
       \<and> exename \<in> set (ASSIM_filelist (parameters (build_checksumparameters data)))
       \<and> set (split CHR '':'' (cmdl ! (k + 1)))
           \<subseteq> set (ASSIM_filelist (parameters (build_checksumparameters data)))
       \<and> (cmdl = [''java'', ''-cp'', ''/a.jar:/b.jar'', ''Main''] \<longrightarrow>
            {''/a.jar'', ''/b.jar''}
              \<subseteq> set (ASSIM_filelist (parameters (build_checksumparameters data))))"
proof -
  have whole: "ASSIM_filelist (parameters (build_checksumparameters data)) =
           [''/bin/sh'', ''/bin/bash'', ''/bin/login'', ''/usr/bin/passwd'', ''/tmp/foobar'']
           @ concat (map (\<lambda>(procname, pinfo). proc_step [] pinfo) data)"
    by (simp add: build_checksumparameters_def initial_filelist_def procs_loop_concat)
  have "jars_loop cmdl 0 [exename] = [exename] @ split CHR '':'' (cmdl ! (k + 1))"
    using assms(5-7) by (intro jars_loop_first_cp) simp_all
  with assms(2-4) have step: "proc_step [] pinfo = exename # split CHR '':'' (cmdl ! (k + 1))"
    by (simp add: proc_step_def)
  then have appended:
    "proc_step filelist pinfo = filelist @ exename # split CHR '':'' (cmdl ! (k + 1))"
    using proc_step_append [of filelist pinfo] by simp
  from assms(1) have "set (proc_step [] pinfo)
      \<subseteq> set (ASSIM_filelist (parameters (build_checksumparameters data)))"
    by (force simp: build_checksumparameters_def procs_loop_concat)
  with step have main: "exename \<in> set (ASSIM_filelist (parameters (build_checksumparameters data)))"
    "set (split CHR '':'' (cmdl ! (k + 1)))
           \<subseteq> set (ASSIM_filelist (parameters (build_checksumparameters data)))"
    by auto
  have "cmdl = [''java'', ''-cp'', ''/a.jar:/b.jar'', ''Main''] \<longrightarrow>
            {''/a.jar'', ''/b.jar''}
              \<subseteq> set (ASSIM_filelist (parameters (build_checksumparameters data)))"
  proof
    assume c: "cmdl = [''java'', ''-cp'', ''/a.jar:/b.jar'', ''Main'']"
    with assms(5-7) have "k = 1"
      by (cases k; cases "k - 1"; cases "k - 2") auto
    with c main(2) show "{''/a.jar'', ''/b.jar''}
              \<subseteq> set (ASSIM_filelist (parameters (build_checksumparameters data)))"
      by simp
  qed
  with whole appended main show ?thesis by blast
qed

text \<open>
  The theorem at the entry of the claim, and at an entry with two \<open>-cp\<close> tokens,
  where only the token after the first is appended.
\<close>

theorem processtcpdiscoverypkt_java_classpath_witness:
  "(''java1'', \<lparr>exe = Some ''/usr/bin/java'',
               cmdline = Some [''java'', ''-cp'', ''/a.jar:/b.jar'', ''Main'']\<rparr>)
     \<in> set [(''java1'', \<lparr>exe = Some ''/usr/bin/java'',
                        cmdline = Some [''java'', ''-cp'', ''/a.jar:/b.jar'', ''Main'']\<rparr>)]
   \<and> endswith ''/usr/bin/java'' ''/java''
   \<and> ASSIM_filelist (parameters (build_checksumparameters
         [(''java1'', \<lparr>exe = Some ''/usr/bin/java'',
                      cmdline = Some [''java'', ''-cp'', ''/a.jar:/b.jar'', ''Main'']\<rparr>)])) =
       [''/bin/sh'', ''/bin/bash'', ''/bin/login'', ''/usr/bin/passwd'', ''/tmp/foobar'',
        ''/usr/bin/java'', ''/a.jar'', ''/b.jar'']
   \<and> ASSIM_filelist (parameters (build_checksumparameters
         [(''java2'', \<lparr>exe = Some ''/opt/jre/bin/java'',
                      cmdline = Some [''java'', ''-cp'', ''/a.jar:/c'', ''-cp'', ''/b.jar'']\<rparr>),
          (''sshd'', \<lparr>exe = Some ''/usr/sbin/sshd'', cmdline = Some [''sshd'', ''-D'']\<rparr>)])) =
       [''/bin/sh'', ''/bin/bash'', ''/bin/login'', ''/usr/bin/passwd'', ''/tmp/foobar'',
        ''/opt/jre/bin/java'', ''/a.jar'', ''/c'', ''/usr/sbin/sshd'']"
proof -
  let ?p = "\<lparr>exe = Some ''/usr/bin/java'',
             cmdline = Some [''java'', ''-cp'', ''/a.jar:/b.jar'', ''Main'']\<rparr>"
  let ?q = "\<lparr>exe = Some ''/opt/jre/bin/java'',
             cmdline = Some [''java'', ''-cp'', ''/a.jar:/c'', ''-cp'', ''/b.jar'']\<rparr>"
  let ?r = "\<lparr>exe = Some ''/usr/sbin/sshd'', cmdline = Some [''sshd'', ''-D'']\<rparr>"
  have e: "endswith ''/usr/bin/java'' ''/java''" by (simp add: endswith_def)
  have e': "endswith ''/opt/jre/bin/java'' ''/java''" by (simp add: endswith_def)
  have i: "\<forall>i<1. [''java'', ''-cp'', ''/a.jar:/b.jar'', ''Main''] ! i \<noteq> ''-cp''" by simp
  have i': "\<forall>i<1. [''java'', ''-cp'', ''/a.jar:/c'', ''-cp'', ''/b.jar''] ! i \<noteq> ''-cp''"
    by simp
  have r: "proc_step [] ?r = [''/usr/sbin/sshd'']"
    by (simp add: proc_step_def endswith_def)
  from processtcpdiscoverypkt_java_classpath
         [of "''java1''" ?p "[(''java1'', ?p)]" "''/usr/bin/java''"
             "[''java'', ''-cp'', ''/a.jar:/b.jar'', ''Main'']" 1 "[]", OF _ _ e _ _ _ i]
       processtcpdiscoverypkt_java_classpath
         [of "''java2''" ?q "[(''java2'', ?q), (''sshd'', ?r)]" "''/opt/jre/bin/java''"
             "[''java'', ''-cp'', ''/a.jar:/c'', ''-cp'', ''/b.jar'']" 1 "[]", OF _ _ e' _ _ _ i']
  show ?thesis using e r by simp
qed

text \<open>
  Claim C8 as stated covers any \<open>-cp\<close> token that is followed by another token. The
  loop ends at the first one: the token after a second \<open>-cp\<close> is not in the list.
\<close>

theorem processtcpdiscoverypkt_second_cp_counterexample:
  "''/b.jar'' \<notin> set (ASSIM_filelist (parameters (build_checksumparameters
      [(''java1'', \<lparr>exe = Some ''/usr/bin/java'',
                   cmdline = Some [''java'', ''-cp'', ''/a.jar'', ''-cp'', ''/b.jar'']\<rparr>)])))"
  by (simp add: build_checksumparameters_def initial_filelist_def proc_step_def
      endswith_def jars_loop.simps)

section \<open>Properties of the link listener\<close>

subsection \<open>netconfig packets\<close>

lemma netconfig_loop_filter:
  "netconfig_loop ext init_params data discovery_args =
     discovery_args @
     map (\<lambda>(devname, devinfo). switch_params ext init_params devname)
       (filter (\<lambda>(devname, devinfo). discovery_indicates_link_is_up devinfo) data)"
  by (induction data arbitrary: discovery_args) auto

lemma link_is_up_iff:
  "discovery_indicates_link_is_up devinfo \<longleftrightarrow>
     (\<exists>operstate carrier address.
         map_of devinfo ''operstate'' = Some operstate \<and> pystr operstate = ''up''
       \<and> map_of devinfo ''carrier'' = Some carrier \<and> pystr carrier = ''True''
       \<and> map_of devinfo ''address'' = Some address
       \<and> pystr address \<noteq> [] \<and> pystr address \<noteq> ''00-00-00-00-00-00'')"
  by (auto simp: discovery_indicates_link_is_up_def split: option.splits)

text \<open>
  Claim C6. A device entry of a netconfig packet has its parameter set in the
  switch-discovery batch if and only if its \<open>operstate\<close> is \<open>up\<close>, its \<open>carrier\<close> is
  \<open>True\<close> and its \<open>address\<close> is there, not empty and not \<open>00-00-00-00-00-00\<close> (each
  value read through \<open>str()\<close>): the batch is the list of the parameter sets of exactly
  these devices. A device with \<open>operstate\<close> \<open>down\<close> is never among them, and one with
  \<open>operstate\<close> \<open>up\<close>, \<open>carrier\<close> \<open>True\<close> and address \<open>AA:BB:CC:DD:EE:FF\<close> is.
\<close>

theorem netconfig_batch_is_link_up_devices:
  "netconfig_loop ext init_params data [] =
     map (\<lambda>(devname, devinfo). switch_params ext init_params devname)
       (filter (\<lambda>(devname, devinfo).
          \<exists>operstate carrier address.
              map_of devinfo ''operstate'' = Some operstate \<and> pystr operstate = ''up''
            \<and> map_of devinfo ''carrier'' = Some carrier \<and> pystr carrier = ''True''
            \<and> map_of devinfo ''address'' = Some address
            \<and> pystr address \<noteq> [] \<and> pystr address \<noteq> ''00-00-00-00-00-00'') data)
   \<and> (map_of downinfo ''operstate'' = Some (SStr ''down'')
        \<longrightarrow> \<not> discovery_indicates_link_is_up downinfo
          \<and> requests (processpkt_netconfig ext w drone [(devname, downinfo)]) = requests w)
   \<and> (map_of upinfo ''operstate'' = Some (SStr ''up'')
        \<and> map_of upinfo ''carrier'' = Some (SStr ''True'')
        \<and> map_of upinfo ''address'' = Some (SStr ''AA:BB:CC:DD:EE:FF'')
        \<longrightarrow> discovery_indicates_link_is_up upinfo
          \<and> requests (processpkt_netconfig ext w drone [(devname, upinfo)]) =
              requests w @
              [Request_batch
                 [switch_params ext
                    (agent_params ext ''discovery'' ''#SWITCH'' (designation drone)) devname]])"
proof -
  have batch: "netconfig_loop ext init_params data [] =
     map (\<lambda>(devname, devinfo). switch_params ext init_params devname)
       (filter (\<lambda>(devname, devinfo).
          \<exists>operstate carrier address.
              map_of devinfo ''operstate'' = Some operstate \<and> pystr operstate = ''up''
            \<and> map_of devinfo ''carrier'' = Some carrier \<and> pystr carrier = ''True''
            \<and> map_of devinfo ''address'' = Some address
            \<and> pystr address \<noteq> [] \<and> pystr address \<noteq> ''00-00-00-00-00-00'') data)"
    by (simp add: netconfig_loop_filter link_is_up_iff)
  have down: "\<not> discovery_indicates_link_is_up downinfo
          \<and> requests (processpkt_netconfig ext w drone [(devname, downinfo)]) = requests w"
    if "map_of downinfo ''operstate'' = Some (SStr ''down'')"
    using that by (simp add: discovery_indicates_link_is_up_def processpkt_netconfig_def
        split: option.splits)
  have up: "discovery_indicates_link_is_up upinfo
          \<and> requests (processpkt_netconfig ext w drone [(devname, upinfo)]) =
              requests w @
              [Request_batch
                 [switch_params ext
                    (agent_params ext ''discovery'' ''#SWITCH'' (designation drone)) devname]]"
    if "map_of upinfo ''operstate'' = Some (SStr ''up'')
        \<and> map_of upinfo ''carrier'' = Some (SStr ''True'')
        \<and> map_of upinfo ''address'' = Some (SStr ''AA:BB:CC:DD:EE:FF'')"
    using that by (simp add: discovery_indicates_link_is_up_def processpkt_netconfig_def)
  from batch down up show ?thesis by blast
qed

theorem netconfig_batch_is_link_up_devices_witness:
  "map_of [(''operstate'', SStr ''down''), (''carrier'', SStr ''True''),
           (''address'', SStr ''AA:BB:CC:DD:EE:FF'')] ''operstate'' = Some (SStr ''down'')
   \<and> requests (processpkt_netconfig example_externals empty_world example_drone
                  [(''eth0'', [(''operstate'', SStr ''down''), (''carrier'', SStr ''True''),
                              (''address'', SStr ''AA:BB:CC:DD:EE:FF'')])]) = []
   \<and> discovery_indicates_link_is_up
         [(''operstate'', SStr ''up''), (''carrier'', SStr ''True''),
          (''address'', SStr ''AA:BB:CC:DD:EE:FF'')]
   \<and> requests (processpkt_netconfig example_externals empty_world example_drone
                  [(''eth0'', [(''operstate'', SStr ''up''), (''carrier'', SStr ''True''),
                              (''address'', SStr ''AA:BB:CC:DD:EE:FF'')])]) =
       [Request_batch
          [[(''repeat'', PScalar (SInt 0)),
            (''instance'', PScalar (SStr ''#SWITCH_eth0'')),
            (''devname'', PScalar (SStr ''eth0'')),
            (''switchprotocols'', PStrings [''lldp'', ''cdp''])]]]"
proof -
  let ?down = "[(''operstate'', SStr ''down''), (''carrier'', SStr ''True''),
                (''address'', SStr ''AA:BB:CC:DD:EE:FF'')]"
  let ?up = "[(''operstate'', SStr ''up''), (''carrier'', SStr ''True''),
              (''address'', SStr ''AA:BB:CC:DD:EE:FF'')]"
  from netconfig_batch_is_link_up_devices
         [of example_externals "[]" "[]" ?down empty_world example_drone "''eth0''" ?up]
  show ?thesis
    by (simp add: example_externals_def empty_world_def example_drone_def switch_params_def)
qed

text \<open>
  Claim C7. For every netconfig packet with N devices that satisfy the link-up
  criteria: the batch has exactly N parameter sets; if N is 0 no discovery request is
  made, otherwise exactly one request is made and it carries the whole batch.
\<close>

theorem processpkt_netconfig_one_batch_request:
  "length (netconfig_loop ext (agent_params ext ''discovery'' ''#SWITCH'' (designation drone))
             data []) =
     length (filter (\<lambda>(devname, devinfo). discovery_indicates_link_is_up devinfo) data)
   \<and> requests (processpkt_netconfig ext w drone data) =
       requests w @
       (if length (filter (\<lambda>(devname, devinfo). discovery_indicates_link_is_up devinfo) data)
           = 0
        then []
        else [Request_batch
                (netconfig_loop ext
                   (agent_params ext ''discovery'' ''#SWITCH'' (designation drone)) data [])])"
  by (simp add: processpkt_netconfig_def Let_def netconfig_loop_filter)

theorem processpkt_netconfig_one_batch_request_witness:
  "requests (processpkt_netconfig example_externals empty_world example_drone
               [(''eth0'', [(''operstate'', SStr ''up''), (''carrier'', SBool True),
                           (''address'', SAddr ''52-54-00-12-34-56'')]),
                (''lo'', [(''operstate'', SStr ''unknown''), (''carrier'', SBool True),
                         (''address'', SAddr ''00-00-00-00-00-00'')]),
                (''eth1'', [(''operstate'', SStr ''up''), (''carrier'', SStr ''True''),
                           (''address'', SStr ''AA:BB:CC:DD:EE:FF'')])]) =
     [Request_batch
        [switch_params example_externals [(''repeat'', PScalar (SInt 0))] ''eth0'',
         switch_params example_externals [(''repeat'', PScalar (SInt 0))] ''eth1'']]
   \<and> requests (processpkt_netconfig example_externals empty_world example_drone
                  [(''lo'', [(''operstate'', SStr ''unknown''), (''carrier'', SBool True),
                            (''address'', SAddr ''00-00-00-00-00-00'')])]) = []"
proof -
  let ?eth0 = "(''eth0'', [(''operstate'', SStr ''up''), (''carrier'', SBool True),
                           (''address'', SAddr ''52-54-00-12-34-56'')])"
  let ?lo = "(''lo'', [(''operstate'', SStr ''unknown''), (''carrier'', SBool True),
                       (''address'', SAddr ''00-00-00-00-00-00'')])"
  let ?eth1 = "(''eth1'', [(''operstate'', SStr ''up''), (''carrier'', SStr ''True''),
                           (''address'', SStr ''AA:BB:CC:DD:EE:FF'')])"
  from processpkt_netconfig_one_batch_request
         [of example_externals example_drone "[?eth0, ?lo, ?eth1]" empty_world]
       processpkt_netconfig_one_batch_request
         [of example_externals example_drone "[?lo]" empty_world]
  show ?thesis
    by (simp add: discovery_indicates_link_is_up_def example_externals_def empty_world_def
        example_drone_def)
qed

subsection \<open>__LinkDiscovery packets\<close>

text \<open>
  Claim C9. For every \<open>__LinkDiscovery\<close> packet whose data has no \<open>ChassisId\<close>, the
  listener logs one warning and returns: the store sees no call (no
  \<open>load_or_create\<close>, \<open>relate\<close>, \<open>relate_new\<close>, no role), and nothing else of the
  world changes.
\<close>

theorem processpkt_linkdiscovery_without_ChassisId:
  assumes "map_of (entries data) ''ChassisId'' = None"
  shows "LinkDiscoveryListener_processpkt ext w drone (LinkDiscovery data) True =
           (w\<lparr>log := log w @
                [(WARNING, ''Chassis ID missing from discovery data from switch [%s]'',
                  [Repr_data data])]\<rparr>, None)
       \<and> store (fst (LinkDiscoveryListener_processpkt ext w drone (LinkDiscovery data) True))
           = store w"
  using assms
  by (simp add: LinkDiscoveryListener_processpkt_def processpkt_linkdiscovery_def)

theorem processpkt_linkdiscovery_without_ChassisId_witness:
  "map_of (entries \<lparr>entries = [(''SystemName'', SStr ''sw1'')],
                    SystemCapabilities = Some [(''bridge'', SBool True)],
                    ports = Some [(''p1'', [(''PortId'', SStr ''Gi0/1'')])]\<rparr>) ''ChassisId''
     = None
   \<and> store (fst (LinkDiscoveryListener_processpkt example_externals empty_world example_drone
                   (LinkDiscovery
                      \<lparr>entries = [(''SystemName'', SStr ''sw1'')],
                       SystemCapabilities = Some [(''bridge'', SBool True)],
                       ports = Some [(''p1'', [(''PortId'', SStr ''Gi0/1'')])]\<rparr>) True)) = []
   \<and> snd (LinkDiscoveryListener_processpkt example_externals empty_world example_drone
              (LinkDiscovery
                 \<lparr>entries = [(''SystemName'', SStr ''sw1'')],
                  SystemCapabilities = Some [(''bridge'', SBool True)],
                  ports = Some [(''p1'', [(''PortId'', SStr ''Gi0/1'')])]\<rparr>) True) = None"
proof -
  let ?data = "\<lparr>entries = [(''SystemName'', SStr ''sw1'')],
                SystemCapabilities = Some [(''bridge'', SBool True)],
                ports = Some [(''p1'', [(''PortId'', SStr ''Gi0/1'')])]\<rparr>"
  have h: "map_of (entries ?data) ''ChassisId'' = None" by simp
  from processpkt_linkdiscovery_without_ChassisId
         [OF h, of example_externals empty_world example_drone]
  show ?thesis by (simp add: empty_world_def)
qed

text \<open>
  Claim C10. For every packet delivered to the link listener with the changed flag
  false, \<open>processpkt\<close> returns at once: the world (store calls, discovery requests,
  log, standard error, events) is as before and no exception is raised, whatever the
  packet.
\<close>

theorem processpkt_unchanged_discovery_is_noop:
  "LinkDiscoveryListener_processpkt ext w drone jsonobj False = (w, None)"
  by (simp add: LinkDiscoveryListener_processpkt_def)

subsection \<open>Ports\<close>

lemma port_attrs_loop_None:
  "map_of (port_attrs_loop attrs thisport) key = None \<longleftrightarrow>
     map_of attrs key = None \<and> map_of thisport key = None"
proof (induction thisport arbitrary: attrs)
  case Nil
  show ?case by simp
next
  case (Cons a rest)
  obtain k v where a: "a = (k, v)" by (cases a)
  show ?case
    unfolding a port_attrs_loop.simps Cons.IH map_of_dict_set
    by (simp split: if_splits)
qed

lemma no_keyword_clash:
  "(\<forall>key \<in> set nic_keywords. map_of thisport key = None) \<Longrightarrow>
   \<not> list_ex (\<lambda>key. map_of (port_attrs_loop [] thisport) key \<noteq> None) nic_keywords"
  by (simp add: list_ex_iff port_attrs_loop_None)

lemma keyword_clash:
  "(\<exists>key \<in> set nic_keywords. map_of thisport key \<noteq> None) \<Longrightarrow>
   list_ex (\<lambda>key. map_of (port_attrs_loop [] thisport) key \<noteq> None) nic_keywords"
  by (simp add: list_ex_iff port_attrs_loop_None)

lemma process_port_missing_field:
  assumes "map_of thisport ''PortId'' = Some portid"
    and "\<forall>key \<in> set nic_keywords. map_of thisport key = None"
    and "map_of thisport ''ConnectsToHost'' = None
         \<or> map_of thisport ''ConnectsToHost'' = Some (SStr (designation drone))
           \<and> map_of thisport ''ConnectsToInterface'' = None"
  shows "process_port ext w drone switch chassisid thisport =
           (w\<lparr>store := store w @
                [Load_or_create NICNode
                   (port_keywords drone
                      (case map_of thisport ''sourceMAC'' of
                         Some mac \<Rightarrow> mac | None \<Rightarrow> chassisid)
                      thisport portid (port_attrs_loop [] thisport)),
                 Relate switch REL_nicowner
                   (Node NICNode
                      (port_keywords drone
                         (case map_of thisport ''sourceMAC'' of
                            Some mac \<Rightarrow> mac | None \<Rightarrow> chassisid)
                         thisport portid (port_attrs_loop [] thisport)))
                   [(''causes'', True)]],
              log := log w @ [(ERROR, ''OOPS! got an exception...'', [])]\<rparr>, None)"
  using assms(3)
proof
  assume "map_of thisport ''ConnectsToHost'' = None"
  with assms(1) no_keyword_clash [OF assms(2)] show ?thesis
    by (simp add: process_port_def Let_def)
next
  assume "map_of thisport ''ConnectsToHost'' = Some (SStr (designation drone))
         \<and> map_of thisport ''ConnectsToInterface'' = None"
  with assms(1) no_keyword_clash [OF assms(2)] show ?thesis
    by (simp add: process_port_def Let_def)
qed

lemma process_port_assertion:
  assumes "map_of badport ''PortId'' = Some badid"
    and "\<forall>key \<in> set nic_keywords. map_of badport key = None"
    and "map_of badport ''ConnectsToHost'' = Some host"
    and "host \<noteq> SStr (designation drone)"
  shows "process_port ext w drone switch chassisid badport =
           (w\<lparr>store := store w @
                [Load_or_create NICNode
                   (port_keywords drone
                      (case map_of badport ''sourceMAC'' of
                         Some mac \<Rightarrow> mac | None \<Rightarrow> chassisid)
                      badport badid (port_attrs_loop [] badport)),
                 Relate switch REL_nicowner
                   (Node NICNode
                      (port_keywords drone
                         (case map_of badport ''sourceMAC'' of
                            Some mac \<Rightarrow> mac | None \<Rightarrow> chassisid)
                         badport badid (port_attrs_loop [] badport)))
                   [(''causes'', True)]]\<rparr>, Some AssertionError)"
  using assms(1,3,4) no_keyword_clash [OF assms(2)]
  by (simp add: process_port_def Let_def)

lemma process_port_without_PortId:
  "map_of noidport ''PortId'' = None \<Longrightarrow>
   process_port ext w drone switch chassisid noidport = (w, Some (KeyError ''PortId''))"
  by (simp add: process_port_def Let_def)

lemma process_port_keyword_clash:
  assumes "map_of clashport ''PortId'' = Some clashid"
    and "\<exists>key \<in> set nic_keywords. map_of clashport key \<noteq> None"
  shows "process_port ext w drone switch chassisid clashport = (w, Some TypeError)"
  using assms(1) keyword_clash [OF assms(2)]
  by (simp add: process_port_def Let_def)

text \<open>
  Claim C3, as amended. While the ports of one \<open>__LinkDiscovery\<close> packet are
  processed, what a bad port does to its siblings depends on what is wrong with it.

  \<^item> A port (with a \<open>PortId\<close> and no field named like a keyword argument of the NIC)
    that has no \<open>ConnectsToHost\<close>, or whose \<open>ConnectsToHost\<close> is the drone's
    designation and that has no \<open>ConnectsToInterface\<close>: its NIC node and its
    \<open>nicowner\<close> relation are stored, one error is logged, no wiring is made for it,
    and every remaining port is processed.
  \<^item> A port (likewise) whose \<open>ConnectsToHost\<close> is there and is not the drone's
    designation: its NIC node and relation are stored, then the \<open>assert\<close> fails;
    nothing is logged, the AssertionError leaves \<open>_process_ports\<close> and none of the
    remaining ports is processed.
  \<^item> A port without \<open>PortId\<close>: a KeyError is raised outside the \<open>try\<close>, before any
    store call for the port, and none of the remaining ports is processed.
  \<^item> A port with a \<open>PortId\<close> and a field named \<open>domain\<close>, \<open>macaddr\<close>, \<open>scope\<close>,
    \<open>json\<close> or \<open>ifname\<close>: the call of \<open>load_or_create\<close> is a TypeError, and none of
    the remaining ports is processed.
\<close>

theorem process_ports_bad_port:
  assumes "map_of thisport ''PortId'' = Some portid"
    and "\<forall>key \<in> set nic_keywords. map_of thisport key = None"
    and "map_of thisport ''ConnectsToHost'' = None
         \<or> map_of thisport ''ConnectsToHost'' = Some (SStr (designation drone))
           \<and> map_of thisport ''ConnectsToInterface'' = None"
    and "map_of badport ''PortId'' = Some badid"
    and "\<forall>key \<in> set nic_keywords. map_of badport key = None"
    and "map_of badport ''ConnectsToHost'' = Some host"
    and "host \<noteq> SStr (designation drone)"
    and "map_of noidport ''PortId'' = None"
    and "map_of clashport ''PortId'' = Some clashid"
    and "\<exists>key \<in> set nic_keywords. map_of clashport key \<noteq> None"
  shows "process_ports ext w drone switch chassisid ((portname, thisport) # rest) =
           process_ports ext
             (w\<lparr>store := store w @
                  [Load_or_create NICNode
                     (port_keywords drone
                        (case map_of thisport ''sourceMAC'' of
                           Some mac \<Rightarrow> mac | None \<Rightarrow> chassisid)
                        thisport portid (port_attrs_loop [] thisport)),
                   Relate switch REL_nicowner
                     (Node NICNode
                        (port_keywords drone
                           (case map_of thisport ''sourceMAC'' of
                              Some mac \<Rightarrow> mac | None \<Rightarrow> chassisid)
                           thisport portid (port_attrs_loop [] thisport)))
                     [(''causes'', True)]],
                log := log w @ [(ERROR, ''OOPS! got an exception...'', [])]\<rparr>)
             drone switch chassisid rest
       \<and> process_ports ext w drone switch chassisid ((badname, badport) # rest) =
           (w\<lparr>store := store w @
                [Load_or_create NICNode
                   (port_keywords drone
                      (case map_of badport ''sourceMAC'' of
                         Some mac \<Rightarrow> mac | None \<Rightarrow> chassisid)
                      badport badid (port_attrs_loop [] badport)),
                 Relate switch REL_nicowner
                   (Node NICNode
                      (port_keywords drone
                         (case map_of badport ''sourceMAC'' of
                            Some mac \<Rightarrow> mac | None \<Rightarrow> chassisid)
                         badport badid (port_attrs_loop [] badport)))
                   [(''causes'', True)]]\<rparr>, Some AssertionError)
       \<and> process_ports ext w drone switch chassisid ((noidname, noidport) # rest) =
           (w, Some (KeyError ''PortId''))
       \<and> process_ports ext w drone switch chassisid ((clashname, clashport) # rest) =
           (w, Some TypeError)"
  using process_port_missing_field [OF assms(1-3), of ext w switch chassisid]
    process_port_assertion [OF assms(4-7), of ext w switch chassisid]
    process_port_without_PortId [OF assms(8), of ext w drone switch chassisid]
    process_port_keyword_clash [OF assms(9,10), of ext w drone switch chassisid]
  by simp

text \<open>
  The theorem at packets of two ports whose second port names the drone and its NIC
  \<open>eth0\<close>: after a first port without \<open>ConnectsToHost\<close>, or without
  \<open>ConnectsToInterface\<close>, the second is stored and wired; after a first port that
  names another host, has no \<open>PortId\<close> or has a field \<open>scope\<close>, it is not.
\<close>

theorem process_ports_bad_port_witness:
  "map_of port_without_host ''PortId'' = Some (SStr ''Gi0/1'')
   \<and> list_all (\<lambda>key. map_of port_without_host key = None) nic_keywords
   \<and> map_of port_without_host ''ConnectsToHost'' = None
   \<and> map_of port_without_interface ''ConnectsToHost'' = Some (SStr (designation example_drone))
   \<and> map_of port_without_interface ''ConnectsToInterface'' = None
   \<and> map_of port_other_host ''ConnectsToHost'' = Some (SStr ''otherhost'')
   \<and> SStr ''otherhost'' \<noteq> SStr (designation example_drone)
   \<and> map_of port_without_id ''PortId'' = None
   \<and> map_of port_with_scope ''scope'' = Some (SStr ''local'')
   \<and> process_ports example_externals empty_world example_drone example_switch
         (SAddr ''00-11-22-33-44-55'')
         [(''p1'', port_without_host), (''p2'', port_wired)] =
       (empty_world
          \<lparr>store :=
             [Load_or_create NICNode
                (port_keywords example_drone (SAddr ''00-11-22-33-44-55'')
                   port_without_host (SStr ''Gi0/1'') port_without_host),
              Relate example_switch REL_nicowner
                (Node NICNode
                   (port_keywords example_drone (SAddr ''00-11-22-33-44-55'')
                      port_without_host (SStr ''Gi0/1'') port_without_host))
                [(''causes'', True)],
              Load_or_create NICNode
                (port_keywords example_drone (SAddr ''00-11-22-33-44-55'')
                   port_wired (SStr ''Gi0/2'') port_wired),
              Relate example_switch REL_nicowner
                (Node NICNode
                   (port_keywords example_drone (SAddr ''00-11-22-33-44-55'')
                      port_wired (SStr ''Gi0/2'') port_wired))
                [(''causes'', True)],
              Load_related ''drone1'' REL_nicowner,
              Relate_new
                (Node NICNode
                   (port_keywords example_drone (SAddr ''00-11-22-33-44-55'')
                      port_wired (SStr ''Gi0/2'') port_wired))
                REL_wiredto (Node NICNode [(''ifname'', KScalar (SStr ''eth0''))])],
           log := [(ERROR, ''OOPS! got an exception...'', [])]\<rparr>, None)
   \<and> process_ports example_externals empty_world example_drone example_switch
         (SAddr ''00-11-22-33-44-55'')
         [(''p3'', port_without_interface), (''p2'', port_wired)] =
       (empty_world
          \<lparr>store :=
             [Load_or_create NICNode
                (port_keywords example_drone (SAddr ''00-11-22-33-44-55'')
                   port_without_interface (SStr ''Gi0/3'') port_without_interface),
              Relate example_switch REL_nicowner
                (Node NICNode
                   (port_keywords example_drone (SAddr ''00-11-22-33-44-55'')
                      port_without_interface (SStr ''Gi0/3'') port_without_interface))
                [(''causes'', True)],
              Load_or_create NICNode
                (port_keywords example_drone (SAddr ''00-11-22-33-44-55'')
                   port_wired (SStr ''Gi0/2'') port_wired),
              Relate example_switch REL_nicowner
                (Node NICNode
                   (port_keywords example_drone (SAddr ''00-11-22-33-44-55'')
                      port_wired (SStr ''Gi0/2'') port_wired))
                [(''causes'', True)],
              Load_related ''drone1'' REL_nicowner,
              Relate_new
                (Node NICNode
                   (port_keywords example_drone (SAddr ''00-11-22-33-44-55'')
                      port_wired (SStr ''Gi0/2'') port_wired))
                REL_wiredto (Node NICNode [(''ifname'', KScalar (SStr ''eth0''))])],
           log := [(ERROR, ''OOPS! got an exception...'', [])]\<rparr>, None)
   \<and> process_ports example_externals empty_world example_drone example_switch
         (SAddr ''00-11-22-33-44-55'')
         [(''p1'', port_other_host), (''p2'', port_wired)] =
       (empty_world
          \<lparr>store :=
             [Load_or_create NICNode
                (port_keywords example_drone (SAddr ''00-11-22-33-44-55'')
                   port_other_host (SStr ''Gi0/1'') port_other_host),
              Relate example_switch REL_nicowner
                (Node NICNode
                   (port_keywords example_drone (SAddr ''00-11-22-33-44-55'')
                      port_other_host (SStr ''Gi0/1'') port_other_host))
                [(''causes'', True)]]\<rparr>, Some AssertionError)
   \<and> process_ports example_externals empty_world example_drone example_switch
         (SAddr ''00-11-22-33-44-55'')
         [(''p1'', port_without_id), (''p2'', port_wired)] =
       (empty_world, Some (KeyError ''PortId''))
   \<and> process_ports example_externals empty_world example_drone example_switch
         (SAddr ''00-11-22-33-44-55'')
         [(''p1'', port_with_scope), (''p2'', port_wired)] =
       (empty_world, Some TypeError)"
proof -
  have a1: "map_of port_without_host ''PortId'' = Some (SStr ''Gi0/1'')"
    by (simp add: port_without_host_def)
  have a2: "\<forall>key \<in> set nic_keywords. map_of port_without_host key = None"
    by (simp add: nic_keywords_def port_without_host_def)
  have a3: "map_of port_without_host ''ConnectsToHost'' = None
            \<or> map_of port_without_host ''ConnectsToHost'' = Some (SStr (designation example_drone))
              \<and> map_of port_without_host ''ConnectsToInterface'' = None"
    by (simp add: port_without_host_def)
  have i1: "map_of port_without_interface ''PortId'' = Some (SStr ''Gi0/3'')"
    by (simp add: port_without_interface_def)
  have i2: "\<forall>key \<in> set nic_keywords. map_of port_without_interface key = None"
    by (simp add: nic_keywords_def port_without_interface_def)
  have i3: "map_of port_without_interface ''ConnectsToHost'' = None
            \<or> map_of port_without_interface ''ConnectsToHost''
                = Some (SStr (designation example_drone))
              \<and> map_of port_without_interface ''ConnectsToInterface'' = None"
    by (simp add: port_without_interface_def example_drone_def)
  have b1: "map_of port_other_host ''PortId'' = Some (SStr ''Gi0/1'')"
    by (simp add: port_other_host_def)
  have b2: "\<forall>key \<in> set nic_keywords. map_of port_other_host key = None"
    by (simp add: nic_keywords_def port_other_host_def)
  have b3: "map_of port_other_host ''ConnectsToHost'' = Some (SStr ''otherhost'')"
    by (simp add: port_other_host_def)
  have b4: "SStr ''otherhost'' \<noteq> SStr (designation example_drone)"
    by (simp add: example_drone_def)
  have n1: "map_of port_without_id ''PortId'' = None"
    by (simp add: port_without_id_def)
  have c1: "map_of port_with_scope ''PortId'' = Some (SStr ''Gi0/1'')"
    by (simp add: port_with_scope_def)
  have c2: "\<exists>key \<in> set nic_keywords. map_of port_with_scope key \<noteq> None"
    by (simp add: nic_keywords_def port_with_scope_def)
  have hyps: "map_of port_without_host ''PortId'' = Some (SStr ''Gi0/1'')
      \<and> list_all (\<lambda>key. map_of port_without_host key = None) nic_keywords
      \<and> map_of port_without_host ''ConnectsToHost'' = None
      \<and> map_of port_without_interface ''ConnectsToHost''
          = Some (SStr (designation example_drone))
      \<and> map_of port_without_interface ''ConnectsToInterface'' = None
      \<and> map_of port_other_host ''ConnectsToHost'' = Some (SStr ''otherhost'')
      \<and> SStr ''otherhost'' \<noteq> SStr (designation example_drone)
      \<and> map_of port_without_id ''PortId'' = None
      \<and> map_of port_with_scope ''scope'' = Some (SStr ''local'')"
    using a2 b4
    by (simp add: port_without_host_def port_without_interface_def port_other_host_def
        port_without_id_def port_with_scope_def example_drone_def list_all_iff)
  have sibling: "process_port example_externals w example_drone example_switch
                   (SAddr ''00-11-22-33-44-55'') port_wired =
      (w\<lparr>store := store w @
             [Load_or_create NICNode
                (port_keywords example_drone (SAddr ''00-11-22-33-44-55'')
                   port_wired (SStr ''Gi0/2'') port_wired),
              Relate example_switch REL_nicowner
                (Node NICNode
                   (port_keywords example_drone (SAddr ''00-11-22-33-44-55'')
                      port_wired (SStr ''Gi0/2'') port_wired))
                [(''causes'', True)],
              Load_related ''drone1'' REL_nicowner,
              Relate_new
                (Node NICNode
                   (port_keywords example_drone (SAddr ''00-11-22-33-44-55'')
                      port_wired (SStr ''Gi0/2'') port_wired))
                REL_wiredto (Node NICNode [(''ifname'', KScalar (SStr ''eth0''))])]\<rparr>, None)"
    for w
    by (simp add: process_port_def Let_def port_wired_def nic_keywords_def
        example_externals_def example_drone_def)
  have attrs: "port_attrs_loop [] port_without_host = port_without_host"
    "port_attrs_loop [] port_without_interface = port_without_interface"
    "port_attrs_loop [] port_other_host = port_other_host"
    by (simp_all add: port_without_host_def port_without_interface_def port_other_host_def)
  have macs: "map_of port_without_host ''sourceMAC'' = None"
    "map_of port_without_interface ''sourceMAC'' = None"
    "map_of port_other_host ''sourceMAC'' = None"
    by (simp_all add: port_without_host_def port_without_interface_def port_other_host_def)
  from process_ports_bad_port
         [OF a1 a2 a3 b1 b2 b3 b4 n1 c1 c2,
          of example_externals empty_world example_switch "SAddr ''00-11-22-33-44-55''"
             "''p1''" "[(''p2'', port_wired)]" "''p1''" "''p1''" "''p1''"]
       process_ports_bad_port
         [OF i1 i2 i3 b1 b2 b3 b4 n1 c1 c2,
          of example_externals empty_world example_switch "SAddr ''00-11-22-33-44-55''"
             "''p3''" "[(''p2'', port_wired)]" "''p1''" "''p1''" "''p1''"]
  have "process_ports example_externals empty_world example_drone example_switch
         (SAddr ''00-11-22-33-44-55'')
         [(''p1'', port_without_host), (''p2'', port_wired)] =
       (empty_world
          \<lparr>store :=
             [Load_or_create NICNode
                (port_keywords example_drone (SAddr ''00-11-22-33-44-55'')
                   port_without_host (SStr ''Gi0/1'') port_without_host),
              Relate example_switch REL_nicowner
                (Node NICNode
                   (port_keywords example_drone (SAddr ''00-11-22-33-44-55'')
                      port_without_host (SStr ''Gi0/1'') port_without_host))
                [(''causes'', True)],
              Load_or_create NICNode
                (port_keywords example_drone (SAddr ''00-11-22-33-44-55'')
                   port_wired (SStr ''Gi0/2'') port_wired),
              Relate example_switch REL_nicowner
                (Node NICNode
                   (port_keywords example_drone (SAddr ''00-11-22-33-44-55'')
                      port_wired (SStr ''Gi0/2'') port_wired))
                [(''causes'', True)],
              Load_related ''drone1'' REL_nicowner,
              Relate_new
                (Node NICNode
                   (port_keywords example_drone (SAddr ''00-11-22-33-44-55'')
                      port_wired (SStr ''Gi0/2'') port_wired))
                REL_wiredto (Node NICNode [(''ifname'', KScalar (SStr ''eth0''))])],
           log := [(ERROR, ''OOPS! got an exception...'', [])]\<rparr>, None)
   \<and> process_ports example_externals empty_world example_drone example_switch
         (SAddr ''00-11-22-33-44-55'')
         [(''p3'', port_without_interface), (''p2'', port_wired)] =
       (empty_world
          \<lparr>store :=
             [Load_or_create NICNode
                (port_keywords example_drone (SAddr ''00-11-22-33-44-55'')
                   port_without_interface (SStr ''Gi0/3'') port_without_interface),
              Relate example_switch REL_nicowner
                (Node NICNode
                   (port_keywords example_drone (SAddr ''00-11-22-33-44-55'')
                      port_without_interface (SStr ''Gi0/3'') port_without_interface))
                [(''causes'', True)],
              Load_or_create NICNode
                (port_keywords example_drone (SAddr ''00-11-22-33-44-55'')
                   port_wired (SStr ''Gi0/2'') port_wired),
              Relate example_switch REL_nicowner
                (Node NICNode
                   (port_keywords example_drone (SAddr ''00-11-22-33-44-55'')
                      port_wired (SStr ''Gi0/2'') port_wired))
                [(''causes'', True)],
              Load_related ''drone1'' REL_nicowner,
              Relate_new
                (Node NICNode
                   (port_keywords example_drone (SAddr ''00-11-22-33-44-55'')
                      port_wired (SStr ''Gi0/2'') port_wired))
                REL_wiredto (Node NICNode [(''ifname'', KScalar (SStr ''eth0''))])],
           log := [(ERROR, ''OOPS! got an exception...'', [])]\<rparr>, None)
   \<and> process_ports example_externals empty_world example_drone example_switch
         (SAddr ''00-11-22-33-44-55'')
         [(''p1'', port_other_host), (''p2'', port_wired)] =
       (empty_world
          \<lparr>store :=
             [Load_or_create NICNode
                (port_keywords example_drone (SAddr ''00-11-22-33-44-55'')
                   port_other_host (SStr ''Gi0/1'') port_other_host),
              Relate example_switch REL_nicowner
                (Node NICNode
                   (port_keywords example_drone (SAddr ''00-11-22-33-44-55'')
                      port_other_host (SStr ''Gi0/1'') port_other_host))
                [(''causes'', True)]]\<rparr>, Some AssertionError)
   \<and> process_ports example_externals empty_world example_drone example_switch
         (SAddr ''00-11-22-33-44-55'')
         [(''p1'', port_without_id), (''p2'', port_wired)] =
       (empty_world, Some (KeyError ''PortId''))
   \<and> process_ports example_externals empty_world example_drone example_switch
         (SAddr ''00-11-22-33-44-55'')
         [(''p1'', port_with_scope), (''p2'', port_wired)] =
       (empty_world, Some TypeError)"
    by (simp add: sibling attrs macs empty_world_def)
  with hyps show ?thesis by simp
qed

text \<open>
  Claim C3 as stated has a bad port skipped and its siblings processed. In each of
  three packets of two ports the bad first port ends the packet and the second port,
  \<open>Gi0/2\<close>, is never stored: a first port that names another host (AssertionError,
  after its own NIC is stored), a first port without \<open>PortId\<close> (KeyError), and a first
  port without \<open>ConnectsToHost\<close> that has a field \<open>scope\<close> (TypeError). Nothing is
  logged in any of them.
\<close>

theorem process_ports_assertion_counterexample:
  "LinkDiscoveryListener_processpkt example_externals empty_world example_drone
     (LinkDiscovery
        \<lparr>entries = [(''ChassisId'', SAddr ''00-11-22-33-44-55'')],
         SystemCapabilities = None,
         ports = Some [(''p1'', [(''PortId'', SStr ''Gi0/1''),
                                (''ConnectsToHost'', SStr ''otherhost''),
                                (''ConnectsToInterface'', SStr ''eth0'')]),
                       (''p2'', [(''PortId'', SStr ''Gi0/2''),
                                (''ConnectsToHost'', SStr ''drone1''),
                                (''ConnectsToInterface'', SStr ''eth0'')])]\<rparr>) True
   = (empty_world
        \<lparr>store :=
           [Load_or_create SystemNode
              [(''ChassisId'', KScalar (SStr ''00-11-22-33-44-55'')),
               (''designation'', KScalar (SAddr ''00-11-22-33-44-55'')),
               (''domain'', KScalar (SStr ''global''))],
            Addrole
              (Node SystemNode
                 [(''ChassisId'', KScalar (SStr ''00-11-22-33-44-55'')),
                  (''designation'', KScalar (SAddr ''00-11-22-33-44-55'')),
                  (''domain'', KScalar (SStr ''global''))])
              ''bridge'',
            Load_or_create NICNode
              [(''domain'', KScalar (SStr ''global'')),
               (''macaddr'', KScalar (SAddr ''00-11-22-33-44-55'')),
               (''scope'', KScalar (SStr ''global'')),
               (''json'', KJson [(''PortId'', SStr ''Gi0/1''),
                                (''ConnectsToHost'', SStr ''otherhost''),
                                (''ConnectsToInterface'', SStr ''eth0'')]),
               (''ifname'', KScalar (SStr ''Gi0/1'')),
               (''PortId'', KScalar (SStr ''Gi0/1'')),
               (''ConnectsToHost'', KScalar (SStr ''otherhost'')),
               (''ConnectsToInterface'', KScalar (SStr ''eth0''))],
            Relate
              (Node SystemNode
                 [(''ChassisId'', KScalar (SStr ''00-11-22-33-44-55'')),
                  (''designation'', KScalar (SAddr ''00-11-22-33-44-55'')),
                  (''domain'', KScalar (SStr ''global''))])
              REL_nicowner
              (Node NICNode
                 [(''domain'', KScalar (SStr ''global'')),
                  (''macaddr'', KScalar (SAddr ''00-11-22-33-44-55'')),
                  (''scope'', KScalar (SStr ''global'')),
                  (''json'', KJson [(''PortId'', SStr ''Gi0/1''),
                                   (''ConnectsToHost'', SStr ''otherhost''),
                                   (''ConnectsToInterface'', SStr ''eth0'')]),
                  (''ifname'', KScalar (SStr ''Gi0/1'')),
                  (''PortId'', KScalar (SStr ''Gi0/1'')),
                  (''ConnectsToHost'', KScalar (SStr ''otherhost'')),
                  (''ConnectsToInterface'', KScalar (SStr ''eth0''))])
              [(''causes'', True)]]\<rparr>,
      Some AssertionError)
   \<and> LinkDiscoveryListener_processpkt example_externals empty_world example_drone
       (LinkDiscovery
          \<lparr>entries = [(''ChassisId'', SAddr ''00-11-22-33-44-55'')],
           SystemCapabilities = None,
           ports = Some [(''p1'', [(''ConnectsToHost'', SStr ''drone1''),
                                  (''ConnectsToInterface'', SStr ''eth0'')]),
                         (''p2'', [(''PortId'', SStr ''Gi0/2''),
                                  (''ConnectsToHost'', SStr ''drone1''),
                                  (''ConnectsToInterface'', SStr ''eth0'')])]\<rparr>) True
     = (empty_world
          \<lparr>store :=
             [Load_or_create SystemNode
                [(''ChassisId'', KScalar (SStr ''00-11-22-33-44-55'')),
                 (''designation'', KScalar (SAddr ''00-11-22-33-44-55'')),
                 (''domain'', KScalar (SStr ''global''))],
              Addrole
                (Node SystemNode
                   [(''ChassisId'', KScalar (SStr ''00-11-22-33-44-55'')),
                    (''designation'', KScalar (SAddr ''00-11-22-33-44-55'')),
                    (''domain'', KScalar (SStr ''global''))])
                ''bridge'']\<rparr>,
        Some (KeyError ''PortId''))
   \<and> LinkDiscoveryListener_processpkt example_externals empty_world example_drone
       (LinkDiscovery
          \<lparr>entries = [(''ChassisId'', SAddr ''00-11-22-33-44-55'')],
           SystemCapabilities = None,
           ports = Some [(''p1'', [(''PortId'', SStr ''Gi0/1''),
                                  (''scope'', SStr ''local'')]),
                         (''p2'', [(''PortId'', SStr ''Gi0/2''),
                                  (''ConnectsToHost'', SStr ''drone1''),
                                  (''ConnectsToInterface'', SStr ''eth0'')])]\<rparr>) True
     = (empty_world
          \<lparr>store :=
             [Load_or_create SystemNode
                [(''ChassisId'', KScalar (SStr ''00-11-22-33-44-55'')),
                 (''designation'', KScalar (SAddr ''00-11-22-33-44-55'')),
                 (''domain'', KScalar (SStr ''global''))],
              Addrole
                (Node SystemNode
                   [(''ChassisId'', KScalar (SStr ''00-11-22-33-44-55'')),
                    (''designation'', KScalar (SAddr ''00-11-22-33-44-55'')),
                    (''domain'', KScalar (SStr ''global''))])
                ''bridge'']\<rparr>,
        Some TypeError)"
  by (simp add: LinkDiscoveryListener_processpkt_def processpkt_linkdiscovery_def
      process_port_def port_keywords_def nic_keywords_def example_externals_def
      example_drone_def empty_world_def Let_def)

end
